theory Spec2Isabelle
  imports Complex_Main
begin

section \<open>Strings and cache keys\<close>

text \<open>
  A JavaScript string is a sequence of UTF-16 code units, in which a surrogate may
  stand unpaired. It is modelled by the list of bytes of its generalised UTF-8
  encoding: a surrogate pair is the four bytes of its code point, every other code
  unit, an unpaired surrogate included, is the one to three bytes of its value. The
  encoding is one to one, so equality of the byte lists is \<^verbatim>\<open>===\<close>. An unpaired
  surrogate U+D800 to U+DFFF is the three bytes \<open>ED\<close>, \<open>A0\<close> to \<open>BF\<close>, \<open>80\<close> to \<open>BF\<close>;
  no other code unit has \<open>ED\<close> followed by a byte from \<open>A0\<close> on.
\<close>

definition surrogate :: "char \<Rightarrow> char \<Rightarrow> bool" where
  "surrogate a b = (a = CHR 0xED \<and> 0xA0 \<le> (of_char b :: nat) \<and> (of_char b :: nat) \<le> 0xBF)"

text \<open>\<^verbatim>\<open>String.prototype.isWellFormed\<close>: no surrogate stands unpaired.\<close>

fun isWellFormed :: "string \<Rightarrow> bool" where
  "isWellFormed (a # b # c # rest) = (\<not> surrogate a b \<and> isWellFormed (b # c # rest))"
| "isWellFormed [a, b] = True"
| "isWellFormed [a] = True"
| "isWellFormed [] = True"

text \<open>
  \<^verbatim>\<open>Buffer.from(s)\<close> holds the UTF-8 encoding of the string, in which every unpaired
  surrogate is replaced by U+FFFD, the bytes \<open>EF BF BD\<close>.
\<close>

fun Buffer_from :: "string \<Rightarrow> string" where
  "Buffer_from (a # b # c # rest) =
     (if surrogate a b then CHR 0xEF # CHR 0xBF # CHR 0xBD # Buffer_from rest
      else a # Buffer_from (b # c # rest))"
| "Buffer_from [a, b] = [a, b]"
| "Buffer_from [a] = [a]"
| "Buffer_from [] = []"

text \<open>\<^verbatim>\<open>.toString('base64')\<close> is the standard base64 encoding with padding.\<close>

definition base64_alphabet :: string where
  "base64_alphabet = ''ABCDEFGHIJKLMNOPQRSTUVWXYZabcdefghijklmnopqrstuvwxyz0123456789+/''"

definition b64 :: "nat \<Rightarrow> char" where
  "b64 n = base64_alphabet ! n"

fun base64 :: "string \<Rightarrow> string" where
  "base64 (a # b # c # rest) =
     b64 (of_char a div 4) #
     b64 ((of_char a mod 4) * 16 + of_char b div 16) #
     b64 ((of_char b mod 16) * 4 + of_char c div 64) #
     b64 (of_char c mod 64) # base64 rest"
| "base64 [a, b] =
     [b64 (of_char a div 4),
      b64 ((of_char a mod 4) * 16 + of_char b div 16),
      b64 ((of_char b mod 16) * 4),
      CHR ''='']"
| "base64 [a] =
     [b64 (of_char a div 4),
      b64 ((of_char a mod 4) * 16),
      CHR ''='', CHR ''='']"
| "base64 [] = []"

text \<open>
  \<^verbatim>\<open>`geocode_${Buffer.from(locationName).toString('base64')}`\<close> and
  \<^verbatim>\<open>`location_extract_${Buffer.from(description).toString('base64')}`\<close>.
\<close>

definition geocode_cacheKey :: "string \<Rightarrow> string" where
  "geocode_cacheKey locationName = ''geocode_'' @ base64 (Buffer_from locationName)"

definition extract_cacheKey :: "string \<Rightarrow> string" where
  "extract_cacheKey description = ''location_extract_'' @ base64 (Buffer_from description)"

text \<open>
  \<^verbatim>\<open>String.prototype.trim\<close> removes leading and trailing white space and line
  terminators. Their encodings: U+0009 to U+000D, U+0020, U+00A0, U+1680,
  U+2000 to U+200A, U+2028, U+2029, U+202F, U+205F, U+3000 and U+FEFF.
\<close>

definition white_space :: "string list" where
  "white_space =
     [[CHR 0x09], [CHR 0x0A], [CHR 0x0B], [CHR 0x0C], [CHR 0x0D], [CHR 0x20],
      [CHR 0xC2, CHR 0xA0],
      [CHR 0xE1, CHR 0x9A, CHR 0x80],
      [CHR 0xE2, CHR 0x80, CHR 0x80], [CHR 0xE2, CHR 0x80, CHR 0x81],
      [CHR 0xE2, CHR 0x80, CHR 0x82], [CHR 0xE2, CHR 0x80, CHR 0x83],
      [CHR 0xE2, CHR 0x80, CHR 0x84], [CHR 0xE2, CHR 0x80, CHR 0x85],
      [CHR 0xE2, CHR 0x80, CHR 0x86], [CHR 0xE2, CHR 0x80, CHR 0x87],
      [CHR 0xE2, CHR 0x80, CHR 0x88], [CHR 0xE2, CHR 0x80, CHR 0x89],
      [CHR 0xE2, CHR 0x80, CHR 0x8A],
      [CHR 0xE2, CHR 0x80, CHR 0xA8], [CHR 0xE2, CHR 0x80, CHR 0xA9],
      [CHR 0xE2, CHR 0x80, CHR 0xAF],
      [CHR 0xE2, CHR 0x81, CHR 0x9F],
      [CHR 0xE3, CHR 0x80, CHR 0x80],
      [CHR 0xEF, CHR 0xBB, CHR 0xBF]]"

definition leading :: "string list \<Rightarrow> string \<Rightarrow> string option" where
  "leading ws s = find (\<lambda>w. w \<noteq> [] \<and> take (length w) s = w) ws"

function strip :: "string list \<Rightarrow> string \<Rightarrow> string" where
  "strip ws s = (case leading ws s of None \<Rightarrow> s | Some w \<Rightarrow> strip ws (drop (length w) s))"
  by pat_completeness auto
termination
proof (relation "measure (\<lambda>(ws, s). length s)")
  show "wf (measure (\<lambda>(ws, s). length s))" by simp
next
  fix ws :: "string list" and s w :: string
  assume "leading ws s = Some w"
  then have "w \<noteq> []" and "take (length w) s = w"
    by (auto simp: leading_def find_Some_iff)
  then have "s \<noteq> []" by auto
  with \<open>w \<noteq> []\<close> show "((ws, drop (length w) s), (ws, s)) \<in> measure (\<lambda>(ws, s). length s)"
    by simp
qed

declare strip.simps [simp del]

definition trimStart :: "string \<Rightarrow> string" where
  "trimStart s = strip white_space s"

definition trimEnd :: "string \<Rightarrow> string" where
  "trimEnd s = rev (strip (map rev white_space) (rev s))"

definition trim :: "string \<Rightarrow> string" where
  "trim s = trimEnd (trimStart s)"

section \<open>Values\<close>

text \<open>
  The object \<^verbatim>\<open>geocodeLocation\<close> builds. \<^verbatim>\<open>null\<close> is \<open>None\<close>; a number is the
  exact value of the double, a rational, and \<^verbatim>\<open>NaN\<close> (which JSON writes as
  \<^verbatim>\<open>null\<close>) is \<open>None\<close>.
\<close>

record geocode_result =
  latitude :: "rat option"
  longitude :: "rat option"
  formatted_address :: string
  geocoding_provider :: "string option"
  confidence :: string

text \<open>
  The values the cache column \<^verbatim>\<open>value jsonb NOT NULL\<close> holds in this program: the
  JSON scalars, and the geocode object. \<^verbatim>\<open>null\<close> is not among them; it is the miss
  of \<^verbatim>\<open>cache.get\<close>.
\<close>

datatype jsval = JBool bool | JNum rat | JStr string | JGeo geocode_result

text \<open>What \<^verbatim>\<open>if (v)\<close> and \<^verbatim>\<open>!v\<close> test.\<close>

fun truthy :: "jsval \<Rightarrow> bool" where
  "truthy (JBool b) = b"
| "truthy (JNum n) = (n \<noteq> 0)"
| "truthy (JStr s) = (s \<noteq> [])"
| "truthy (JGeo r) = True"

datatype js_error = TypeError | URIError | RangeError

section \<open>The cache table and the storage medium\<close>

text \<open>
  Table \<^verbatim>\<open>cache (key text PRIMARY KEY, value jsonb NOT NULL, expires_at timestamptz
  NOT NULL)\<close>. Times are milliseconds since the epoch.
\<close>

type_synonym time = int

record cache_row =
  cvalue :: jsval
  expires_at :: time

type_synonym cache_table = "string \<rightharpoonup> cache_row"

text \<open>
  How the storage medium answers one call of the client: it performs the call, it
  resolves to \<^verbatim>\<open>{ error }\<close>, or the awaited promise rejects. A call that fails
  leaves the table as it was.
\<close>

datatype medium = Available | ErrorReply | Rejected

datatype 'a answer = Data 'a | Error | Thrown

text \<open>
  \<^verbatim>\<open>supabase.from('cache').select('value, expires_at').eq('key', key).single()\<close>:
  \<^verbatim>\<open>single\<close> reports an error when no row matches.
\<close>

definition supabase_select_single :: "medium \<Rightarrow> cache_table \<Rightarrow> string \<Rightarrow> cache_row answer" where
  "supabase_select_single m tbl key =
     (case m of
        Available \<Rightarrow> (case tbl key of None \<Rightarrow> Error | Some row \<Rightarrow> Data row)
      | ErrorReply \<Rightarrow> Error
      | Rejected \<Rightarrow> Thrown)"

text \<open>\<^verbatim>\<open>supabase.from('cache').upsert({ key, value, expires_at })\<close>\<close>

definition supabase_upsert ::
    "medium \<Rightarrow> cache_table \<Rightarrow> string \<Rightarrow> cache_row \<Rightarrow> unit answer \<times> cache_table" where
  "supabase_upsert m tbl key row =
     (case m of
        Available \<Rightarrow> (Data (), tbl(key \<mapsto> row))
      | ErrorReply \<Rightarrow> (Error, tbl)
      | Rejected \<Rightarrow> (Thrown, tbl))"

text \<open>\<^verbatim>\<open>supabase.from('cache').delete().eq('key', key)\<close>\<close>

definition supabase_delete_eq ::
    "medium \<Rightarrow> cache_table \<Rightarrow> string \<Rightarrow> unit answer \<times> cache_table" where
  "supabase_delete_eq m tbl key =
     (case m of
        Available \<Rightarrow> (Data (), tbl(key := None))
      | ErrorReply \<Rightarrow> (Error, tbl)
      | Rejected \<Rightarrow> (Thrown, tbl))"

section \<open>CacheService\<close>

text \<open>
  Each method wraps its call in \<^verbatim>\<open>try\<close>/\<^verbatim>\<open>catch\<close>; \<open>Thrown\<close> is the
  \<^verbatim>\<open>catch\<close> branch and \<open>Error\<close> the \<^verbatim>\<open>if (error)\<close> branch.
\<close>

definition cache_delete :: "medium \<Rightarrow> cache_table \<Rightarrow> string \<Rightarrow> bool \<times> cache_table" where
  "cache_delete m tbl key =
     (case supabase_delete_eq m tbl key of
        (Thrown, tbl') \<Rightarrow> (False, tbl')
      | (Error, tbl') \<Rightarrow> (False, tbl')
      | (Data u, tbl') \<Rightarrow> (True, tbl'))"

text \<open>
  \<open>m_select\<close> and \<open>m_delete\<close> are the medium's answers to the two calls \<^verbatim>\<open>get\<close>
  can make, \<open>now\<close> is \<^verbatim>\<open>new Date()\<close>. The miss \<^verbatim>\<open>null\<close> is \<open>None\<close>.
\<close>

definition cache_get ::
    "medium \<Rightarrow> medium \<Rightarrow> time \<Rightarrow> cache_table \<Rightarrow> string \<Rightarrow> jsval option \<times> cache_table" where
  "cache_get m_select m_delete now tbl key =
     (case supabase_select_single m_select tbl key of
        Thrown \<Rightarrow> (None, tbl)
      | Error \<Rightarrow> (None, tbl)
      | Data row \<Rightarrow>
          if expires_at row < now
          then (let (deleted, tbl') = cache_delete m_delete tbl key in (None, tbl'))
          else (Some (cvalue row), tbl))"

text \<open>
  A \<^verbatim>\<open>Date\<close> holds a time of at most 8.64e15 milliseconds either side of the
  epoch; \<^verbatim>\<open>new Date(t)\<close> beyond that is an invalid date, on which
  \<^verbatim>\<open>toISOString()\<close> throws a \<^verbatim>\<open>RangeError\<close>. Within the range the ISO string
  denotes the time itself.
\<close>

definition toISOString :: "time \<Rightarrow> js_error + time" where
  "toISOString t = (if abs t \<le> 8640000000000000 then Inr t else Inl RangeError)"

text \<open>
  \<open>now\<close> is \<^verbatim>\<open>Date.now()\<close>, \<open>ttlMinutes\<close> the time to live in minutes. The
  \<^verbatim>\<open>RangeError\<close> is thrown inside the \<^verbatim>\<open>try\<close>, before the call of the client.
\<close>

definition cache_set ::
    "medium \<Rightarrow> time \<Rightarrow> cache_table \<Rightarrow> string \<Rightarrow> jsval \<Rightarrow> int \<Rightarrow> bool \<times> cache_table" where
  "cache_set m now tbl key v ttlMinutes =
     (let expiresAt = now + ttlMinutes * 60 * 1000 in
      case toISOString expiresAt of
        Inl e \<Rightarrow> (False, tbl)
      | Inr isoString \<Rightarrow>
          (case supabase_upsert m tbl key \<lparr>cvalue = v, expires_at = isoString\<rparr> of
             (Thrown, tbl') \<Rightarrow> (False, tbl')
           | (Error, tbl') \<Rightarrow> (False, tbl')
           | (Data u, tbl') \<Rightarrow> (True, tbl')))"

text \<open>The clock readings and the medium's answers during one lookup and one write.\<close>

record cache_env =
  get_clock :: time
  select_medium :: medium
  delete_medium :: medium
  set_clock :: time
  upsert_medium :: medium

definition lookup :: "cache_env \<Rightarrow> cache_table \<Rightarrow> string \<Rightarrow> jsval option \<times> cache_table" where
  "lookup io tbl key = cache_get (select_medium io) (delete_medium io) (get_clock io) tbl key"

definition store :: "cache_env \<Rightarrow> cache_table \<Rightarrow> string \<Rightarrow> jsval \<Rightarrow> int \<Rightarrow> cache_table" where
  "store io tbl key v ttlMinutes =
     snd (cache_set (upsert_medium io) (set_clock io) tbl key v ttlMinutes)"

text \<open>The test \<^verbatim>\<open>if (cachedResult)\<close> on what \<^verbatim>\<open>cache.get\<close> returned.\<close>

fun hit :: "jsval option \<Rightarrow> bool" where
  "hit None = False"
| "hit (Some v) = truthy v"

section \<open>Provider adapters\<close>

datatype adapter = GoogleMaps | Mapbox | OpenStreetMap | Gemini

text \<open>
  \<^verbatim>\<open>encodeURIComponent\<close> throws a \<^verbatim>\<open>URIError\<close> on a string with an unpaired
  surrogate; otherwise it keeps the unreserved characters and writes every other byte
  of the UTF-8 encoding as \<^verbatim>\<open>%XX\<close>.
\<close>

definition unreserved :: string where
  "unreserved =
     ''ABCDEFGHIJKLMNOPQRSTUVWXYZabcdefghijklmnopqrstuvwxyz0123456789-_.!~*()'' @ [CHR 0x27]"

definition percent :: "char \<Rightarrow> string" where
  "percent c =
     (if c \<in> set unreserved then [c]
      else [CHR ''%'', ''0123456789ABCDEF'' ! (of_char c div 16),
            ''0123456789ABCDEF'' ! (of_char c mod 16)])"

definition encodeURIComponent :: "string \<Rightarrow> js_error + string" where
  "encodeURIComponent s =
     (if isWellFormed s then Inr (concat (map percent s)) else Inl URIError)"

text \<open>
  What \<^verbatim>\<open>await fetch(...)\<close> followed by \<^verbatim>\<open>await response.json()\<close> gives for the
  encoded location name: the parsed body, or an exception (network failure, a body
  that is not JSON, a body without a property the block reads). Each block catches
  its exceptions, and nothing has been written when one is thrown.
\<close>

datatype 'a fetched = Threw | Json 'a

text \<open>
  Google: \<^verbatim>\<open>data.status\<close>, \<^verbatim>\<open>data.results[i].geometry.location.lat/lng\<close>,
  \<^verbatim>\<open>data.results[i].formatted_address\<close>.
\<close>

record google_geocode =
  location_lat :: rat
  location_lng :: rat
  result_formatted_address :: string

record google_data =
  status :: string
  results :: "google_geocode list"

text \<open>
  Mapbox: \<^verbatim>\<open>data.features\<close> (\<open>None\<close> when absent), \<^verbatim>\<open>feature.center\<close> as
  (\<^verbatim>\<open>center[0]\<close>, \<^verbatim>\<open>center[1]\<close>), \<^verbatim>\<open>feature.place_name\<close>,
  \<^verbatim>\<open>feature.relevance\<close> (\<open>None\<close> when absent). The literal \<^verbatim>\<open>0.8\<close> is the
  double 3602879701896397 / 2^52.
\<close>

definition double_0_8 :: rat where
  "double_0_8 = 3602879701896397 / 4503599627370496"

record mapbox_feature =
  center :: "rat \<times> rat"
  place_name :: string
  relevance :: "rat option"

record mapbox_data =
  features :: "mapbox_feature list option"

text \<open>Nominatim: an array of places with \<^verbatim>\<open>lat\<close> and \<^verbatim>\<open>lon\<close> as strings.\<close>

record osm_place =
  lat :: string
  lon :: string
  display_name :: string

text \<open>
  The surroundings of one call of \<^verbatim>\<open>geocodeLocation\<close>: the two credentials of
  \<^verbatim>\<open>process.env\<close>, the answer of each service to the request for an encoded
  location name, the library function \<^verbatim>\<open>parseFloat\<close>, and the cache's clock and
  medium.
\<close>

record resolver_env =
  GOOGLE_MAPS_API_KEY :: "string option"
  MAPBOX_API_KEY :: "string option"
  fetch_google :: "string \<Rightarrow> google_data fetched"
  fetch_mapbox :: "string \<Rightarrow> mapbox_data fetched"
  fetch_nominatim :: "string \<Rightarrow> osm_place list fetched"
  parseFloat :: "string \<Rightarrow> rat option"
  cache_io :: cache_env

text \<open>\<^verbatim>\<open>if (process.env.KEY)\<close>: the variable is set and not empty.\<close>

fun configured :: "string option \<Rightarrow> bool" where
  "configured None = False"
| "configured (Some k) = (k \<noteq> [])"

text \<open>
  The outcome of one provider block: its guard is false, its \<^verbatim>\<open>catch\<close> runs (on
  an exception of \<^verbatim>\<open>encodeURIComponent\<close>, of \<^verbatim>\<open>fetch\<close> or of reading the body),
  its match test is false, or the test is true and the block builds \<^verbatim>\<open>result\<close>.
\<close>

datatype attempt = NotConfigured | Raised | ZeroMatches | Matched geocode_result

definition google_attempt :: "resolver_env \<Rightarrow> string \<Rightarrow> attempt" where
  "google_attempt env locationName =
     (if configured (GOOGLE_MAPS_API_KEY env) then
        (case encodeURIComponent locationName of
           Inl e \<Rightarrow> Raised
         | Inr q \<Rightarrow>
             (case fetch_google env q of
                Threw \<Rightarrow> Raised
              | Json data \<Rightarrow>
                  if status data = ''OK'' \<and> 0 < length (results data) then
                    Matched \<lparr>latitude = Some (location_lat (results data ! 0)),
                             longitude = Some (location_lng (results data ! 0)),
                             formatted_address = result_formatted_address (results data ! 0),
                             geocoding_provider = Some ''google_maps'',
                             confidence = ''high''\<rparr>
                  else ZeroMatches))
      else NotConfigured)"

definition mapbox_attempt :: "resolver_env \<Rightarrow> string \<Rightarrow> attempt" where
  "mapbox_attempt env locationName =
     (if configured (MAPBOX_API_KEY env) then
        (case encodeURIComponent locationName of
           Inl e \<Rightarrow> Raised
         | Inr q \<Rightarrow>
             (case fetch_mapbox env q of
                Threw \<Rightarrow> Raised
              | Json data \<Rightarrow>
                  (case features data of
                     None \<Rightarrow> ZeroMatches
                   | Some fs \<Rightarrow>
                       if 0 < length fs then
                         Matched \<lparr>latitude = Some (snd (center (fs ! 0))),
                                  longitude = Some (fst (center (fs ! 0))),
                                  formatted_address = place_name (fs ! 0),
                                  geocoding_provider = Some ''mapbox'',
                                  confidence =
                                    (case relevance (fs ! 0) of
                                       None \<Rightarrow> ''medium''
                                     | Some rel \<Rightarrow>
                                         if rel > double_0_8 then ''high'' else ''medium'')\<rparr>
                       else ZeroMatches)))
      else NotConfigured)"

definition osm_attempt :: "resolver_env \<Rightarrow> string \<Rightarrow> attempt" where
  "osm_attempt env locationName =
     (case encodeURIComponent locationName of
        Inl e \<Rightarrow> Raised
      | Inr q \<Rightarrow>
          (case fetch_nominatim env q of
             Threw \<Rightarrow> Raised
           | Json data \<Rightarrow>
               if 0 < length data then
                 Matched \<lparr>latitude = parseFloat env (lat (data ! 0)),
                          longitude = parseFloat env (lon (data ! 0)),
                          formatted_address = display_name (data ! 0),
                          geocoding_provider = Some ''openstreetmap'',
                          confidence = ''medium''\<rparr>
               else ZeroMatches))"

text \<open>The adapter a block tries: none when its guard is false.\<close>

fun invoked :: "adapter \<Rightarrow> attempt \<Rightarrow> adapter list" where
  "invoked p NotConfigured = []"
| "invoked p a = [p]"

section \<open>geocodeLocation\<close>

text \<open>
  The part of \<^verbatim>\<open>geocodeLocation\<close> after the cache check: the initial \<^verbatim>\<open>result\<close>,
  the three blocks in the order of the source, and the final write. Returned with the
  value are the table and the adapters that were tried, in order.
\<close>

definition resolve ::
    "resolver_env \<Rightarrow> cache_table \<Rightarrow> string \<Rightarrow> string \<Rightarrow> jsval \<times> cache_table \<times> adapter list" where
  "resolve env tbl cacheKey locationName =
     (let result = \<lparr>latitude = None, longitude = None, formatted_address = locationName,
                     geocoding_provider = None, confidence = ''unknown''\<rparr>;
          google = google_attempt env locationName
      in case google of
        Matched r \<Rightarrow>
          (JGeo r, store (cache_io env) tbl cacheKey (JGeo r) 1440, [GoogleMaps])
      | _ \<Rightarrow>
         (let mapbox = mapbox_attempt env locationName
          in case mapbox of
            Matched r \<Rightarrow>
              (JGeo r, store (cache_io env) tbl cacheKey (JGeo r) 1440,
               invoked GoogleMaps google @ [Mapbox])
          | _ \<Rightarrow>
             (case osm_attempt env locationName of
                Matched r \<Rightarrow>
                  (JGeo r, store (cache_io env) tbl cacheKey (JGeo r) 1440,
                   invoked GoogleMaps google @ invoked Mapbox mapbox @ [OpenStreetMap])
              | _ \<Rightarrow>
                  (JGeo result, store (cache_io env) tbl cacheKey (JGeo result) 60,
                   invoked GoogleMaps google @ invoked Mapbox mapbox @ [OpenStreetMap]))))"

text \<open>
  \<^verbatim>\<open>Buffer.from\<close> throws a \<^verbatim>\<open>TypeError\<close> on an argument that is not a string;
  that is the only exception \<^verbatim>\<open>geocodeLocation\<close> lets through.
\<close>

definition geocodeLocation ::
    "resolver_env \<Rightarrow> cache_table \<Rightarrow> jsval \<Rightarrow> (js_error + jsval) \<times> cache_table \<times> adapter list" where
  "geocodeLocation env tbl locationName =
     (case locationName of
        JStr name \<Rightarrow>
          (let cacheKey = geocode_cacheKey name;
               (cachedResult, tbl1) = lookup (cache_io env) tbl cacheKey
           in case cachedResult of
                Some v \<Rightarrow>
                  if truthy v then (Inr v, tbl1, [])
                  else (let (r, tbl2, sent) = resolve env tbl1 cacheKey name
                        in (Inr r, tbl2, sent))
              | None \<Rightarrow>
                  (let (r, tbl2, sent) = resolve env tbl1 cacheKey name
                   in (Inr r, tbl2, sent)))
      | _ \<Rightarrow> (Inl TypeError, tbl, []))"

section \<open>The request handler\<close>

text \<open>
  The surroundings of one request: the cache's clock and medium during the extraction
  step, the answer of the language model to a prompt (\<open>Threw\<close> when any of
  \<^verbatim>\<open>getGenerativeModel\<close>, \<^verbatim>\<open>generateContent\<close>, \<^verbatim>\<open>result.response\<close> or
  \<^verbatim>\<open>response.text()\<close> throws), and the surroundings of \<^verbatim>\<open>geocodeLocation\<close>.
\<close>

record handler_env =
  extract_io :: cache_env
  generateContent :: "string \<Rightarrow> string fetched"
  resolver :: resolver_env

definition prompt :: "string \<Rightarrow> string" where
  "prompt description =
     ''Extract the specific location name from this disaster description. '' @
     ''Return only the location name (city, state/province, country) or '' @
     [CHR 0x22] @ ''NONE'' @ [CHR 0x22] @ '' if no clear location is found:'' @
     [CHR 0x0A, CHR 0x0A] @
     ''Description: '' @ [CHR 0x22] @ description @ [CHR 0x22] @
     [CHR 0x0A, CHR 0x0A] @
     ''Location:''"

text \<open>
  The body of \<^verbatim>\<open>if (!extractedLocation) { try { ... } catch { ... } }\<close>: the value of
  \<^verbatim>\<open>extractedLocation\<close> afterwards, the table, and the adapter tried.
\<close>

definition askGemini ::
    "handler_env \<Rightarrow> cache_table \<Rightarrow> string \<Rightarrow> string \<Rightarrow> jsval \<times> cache_table \<times> adapter list" where
  "askGemini env tbl cacheKey description =
     (case generateContent env (prompt description) of
        Json text \<Rightarrow>
          (let extractedLocation = trim text
           in (JStr extractedLocation,
               store (extract_io env) tbl cacheKey (JStr extractedLocation) 60,
               [Gemini]))
      | Threw \<Rightarrow> (JStr ''NONE'', tbl, [Gemini]))"

text \<open>The extraction step: lines 31 to 57 of the handler.\<close>

definition extractLocation_step ::
    "handler_env \<Rightarrow> cache_table \<Rightarrow> string \<Rightarrow> jsval \<times> cache_table \<times> adapter list" where
  "extractLocation_step env tbl description =
     (let cacheKey = extract_cacheKey description;
          (extractedLocation, tbl1) = lookup (extract_io env) tbl cacheKey
      in case extractedLocation of
           Some v \<Rightarrow>
             if \<not> truthy v then askGemini env tbl1 cacheKey description
             else (v, tbl1, [])
         | None \<Rightarrow> askGemini env tbl1 cacheKey description)"

text \<open>
  The JSON the handler sends. \<^verbatim>\<open>...geocodeResult\<close> is kept as the value that was
  spread.
\<close>

record geocoding_response =
  original_description :: string
  extracted_location :: "jsval option"
  location_name :: jsval
  geocodeResult :: jsval

text \<open>
  The handler after validation, which leaves a string \<open>description\<close> and a boolean
  \<open>extractLocation\<close>. An exception goes to \<^verbatim>\<open>next(error)\<close>: \<open>Inl\<close>.
\<close>

definition post_geocoding ::
    "handler_env \<Rightarrow> cache_table \<Rightarrow> string \<Rightarrow> bool \<Rightarrow>
     (js_error + geocoding_response) \<times> cache_table \<times> adapter list" where
  "post_geocoding env tbl description extractLocation =
     (let (locationName, tbl1, sent1) =
            (if extractLocation then
               (let (extractedLocation, tbl', sent) = extractLocation_step env tbl description
                in if extractedLocation \<noteq> JStr ''NONE'' then (extractedLocation, tbl', sent)
                   else (JStr description, tbl', sent))
             else (JStr description, tbl, []));
          (geocoded, tbl2, sent2) = geocodeLocation (resolver env) tbl1 locationName
      in case geocoded of
           Inl e \<Rightarrow> (Inl e, tbl2, sent1 @ sent2)
         | Inr g \<Rightarrow>
             (Inr \<lparr>original_description = description,
                   extracted_location = (if extractLocation then Some locationName else None),
                   location_name = locationName,
                   geocodeResult = g\<rparr>,
              tbl2, sent1 @ sent2))"

section \<open>Notions used to state the properties\<close>

text \<open>A block produced a result: its match test was true.\<close>

fun matched :: "attempt \<Rightarrow> bool" where
  "matched (Matched r) = True"
| "matched a = False"

text \<open>The initial \<^verbatim>\<open>result\<close> of \<^verbatim>\<open>geocodeLocation\<close>, returned when no block matches.\<close>

definition unresolved :: "string \<Rightarrow> geocode_result" where
  "unresolved locationName =
     \<lparr>latitude = None, longitude = None, formatted_address = locationName,
      geocoding_provider = None, confidence = ''unknown''\<rparr>"

text \<open>
  Three surroundings from the scenarios of the specification: the first adapter fails,
  the second returns a match and the third would return one; the first adapter
  returns a match; and no adapter is of any help (not configured, no feature, an
  exception).
\<close>

definition always_up :: cache_env where
  "always_up =
     \<lparr>get_clock = 1000, select_medium = Available, delete_medium = Available,
      set_clock = 2000, upsert_medium = Available\<rparr>"

definition scenario_fallback :: resolver_env where
  "scenario_fallback =
     \<lparr>GOOGLE_MAPS_API_KEY = Some ''google-key'',
      MAPBOX_API_KEY = Some ''mapbox-key'',
      fetch_google = (\<lambda>q. Threw),
      fetch_mapbox = (\<lambda>q. Json \<lparr>features = Some
         [\<lparr>center = (- 7398 / 100, 40715 / 1000),
           place_name = ''Lower East Side, Manhattan'',
           relevance = Some 1\<rparr>]\<rparr>),
      fetch_nominatim = (\<lambda>q. Json
         [\<lparr>lat = ''40.7'', lon = ''-73.9'', display_name = ''Manhattan''\<rparr>]),
      parseFloat = (\<lambda>s. None),
      cache_io = always_up\<rparr>"

definition scenario_google :: resolver_env where
  "scenario_google =
     \<lparr>GOOGLE_MAPS_API_KEY = Some ''google-key'',
      MAPBOX_API_KEY = Some ''mapbox-key'',
      fetch_google = (\<lambda>q. Json \<lparr>status = ''OK'', results =
         [\<lparr>location_lat = 40715 / 1000, location_lng = - 7398 / 100,
           result_formatted_address = ''Lower East Side, New York, NY, USA''\<rparr>]\<rparr>),
      fetch_mapbox = (\<lambda>q. Json \<lparr>features = Some
         [\<lparr>center = (- 7398 / 100, 40715 / 1000),
           place_name = ''Lower East Side, Manhattan'',
           relevance = Some 1\<rparr>]\<rparr>),
      fetch_nominatim = (\<lambda>q. Json
         [\<lparr>lat = ''40.7'', lon = ''-73.9'', display_name = ''Manhattan''\<rparr>]),
      parseFloat = (\<lambda>s. None),
      cache_io = always_up\<rparr>"

definition scenario_nowhere :: resolver_env where
  "scenario_nowhere =
     \<lparr>GOOGLE_MAPS_API_KEY = None,
      MAPBOX_API_KEY = Some ''mapbox-key'',
      fetch_google = (\<lambda>q. Threw),
      fetch_mapbox = (\<lambda>q. Json \<lparr>features = Some []\<rparr>),
      fetch_nominatim = (\<lambda>q. Threw),
      parseFloat = (\<lambda>s. None),
      cache_io = always_up\<rparr>"

text \<open>
  Three surroundings of a request: the language model answers \<^verbatim>\<open>NONE\<close> with
  white space around it, the language model fails, and it answers with white space
  only.
\<close>

definition scenario_send_help :: handler_env where
  "scenario_send_help =
     \<lparr>extract_io = always_up,
      generateContent = (\<lambda>p. Json '' NONE ''),
      resolver = scenario_nowhere\<rparr>"

definition scenario_gemini_down :: handler_env where
  "scenario_gemini_down =
     \<lparr>extract_io = always_up,
      generateContent = (\<lambda>p. Threw),
      resolver = scenario_nowhere\<rparr>"

definition scenario_blank :: handler_env where
  "scenario_blank =
     \<lparr>extract_io = always_up,
      generateContent = (\<lambda>p. Json ''  ''),
      resolver = scenario_fallback\<rparr>"

section \<open>Cache keys are injective\<close>

lemma length_base64_alphabet: "length base64_alphabet = 64"
  by (simp add: base64_alphabet_def)

lemma distinct_base64_alphabet: "distinct base64_alphabet"
  by (simp add: base64_alphabet_def)

lemma pad_notin_alphabet: "CHR ''='' \<notin> set base64_alphabet"
  by (simp add: base64_alphabet_def)

lemma b64_inj: "n < 64 \<Longrightarrow> m < 64 \<Longrightarrow> b64 n = b64 m \<Longrightarrow> n = m"
  unfolding b64_def
  using distinct_base64_alphabet length_base64_alphabet
  by (simp add: nth_eq_iff_index_eq)

lemma b64_not_pad: "n < 64 \<Longrightarrow> b64 n \<noteq> CHR ''=''"
  unfolding b64_def
  using pad_notin_alphabet length_base64_alphabet
  by (metis nth_mem)

lemma sextet_bounds:
  fixes x y :: nat
  assumes "x < 256" "y < 256"
  shows "x div 4 < 64" "(x mod 4) * 16 + y div 16 < 64" "(x mod 16) * 4 + y div 64 < 64"
    "x mod 64 < 64" "(x mod 4) * 16 < 64" "(x mod 16) * 4 < 64"
  using assms by auto

lemma dec_x:
  fixes x y :: nat
  assumes "y < 256"
  shows "x = 4 * (x div 4) + ((x mod 4) * 16 + y div 16) div 16"
proof -
  have "y div 16 < 16" using assms by simp
  then have "((x mod 4) * 16 + y div 16) div 16 = x mod 4" by simp
  then show ?thesis by simp
qed

lemma dec_y:
  fixes x y z :: nat
  assumes "y < 256" "z < 256"
  shows "y = 16 * (((x mod 4) * 16 + y div 16) mod 16) + ((y mod 16) * 4 + z div 64) div 4"
proof -
  have "y div 16 < 16" using assms by simp
  then have a: "((x mod 4) * 16 + y div 16) mod 16 = y div 16" by simp
  have "z div 64 < 4" using assms by simp
  then have b: "((y mod 16) * 4 + z div 64) div 4 = y mod 16" by simp
  show ?thesis unfolding a b by simp
qed

lemma dec_z:
  fixes y z :: nat
  assumes "z < 256"
  shows "z = 64 * (((y mod 16) * 4 + z div 64) mod 4) + z mod 64"
proof -
  have "z div 64 < 4" using assms by simp
  then have b: "((y mod 16) * 4 + z div 64) mod 4 = z div 64" by simp
  show ?thesis unfolding b by simp
qed


lemma char_sextet_bounds:
  fixes a b :: char
  shows "(of_char a :: nat) div 4 < 64"
    "((of_char a :: nat) mod 4) * 16 + (of_char b :: nat) div 16 < 64"
    "((of_char a :: nat) mod 16) * 4 + (of_char b :: nat) div 64 < 64"
    "(of_char a :: nat) mod 64 < 64"
    "((of_char a :: nat) mod 4) * 16 < 64"
    "((of_char a :: nat) mod 16) * 4 < 64"
  using sextet_bounds [of "of_char a" "of_char b"] by simp_all

lemma quantum3_inj:
  fixes a b c a' b' c' :: char
  assumes e1: "b64 (of_char a div 4) = b64 (of_char a' div 4)"
    and e2: "b64 ((of_char a mod 4) * 16 + of_char b div 16) =
             b64 ((of_char a' mod 4) * 16 + of_char b' div 16)"
    and e3: "b64 ((of_char b mod 16) * 4 + of_char c div 64) =
             b64 ((of_char b' mod 16) * 4 + of_char c' div 64)"
    and e4: "b64 (of_char c mod 64) = b64 (of_char c' mod 64)"
  shows "a = a' \<and> b = b' \<and> c = c'"
proof -
  let ?x = "of_char a :: nat" and ?y = "of_char b :: nat" and ?z = "of_char c :: nat"
  let ?x' = "of_char a' :: nat" and ?y' = "of_char b' :: nat" and ?z' = "of_char c' :: nat"
  have s1: "?x div 4 = ?x' div 4"
    using e1 by (rule b64_inj [rotated 2]) (rule char_sextet_bounds)+
  have s2: "(?x mod 4) * 16 + ?y div 16 = (?x' mod 4) * 16 + ?y' div 16"
    using e2 by (rule b64_inj [rotated 2]) (rule char_sextet_bounds)+
  have s3: "(?y mod 16) * 4 + ?z div 64 = (?y' mod 16) * 4 + ?z' div 64"
    using e3 by (rule b64_inj [rotated 2]) (rule char_sextet_bounds)+
  have s4: "?z mod 64 = ?z' mod 64"
    using e4 by (rule b64_inj [rotated 2]) (rule char_sextet_bounds)+
  have "?x = 4 * (?x div 4) + ((?x mod 4) * 16 + ?y div 16) div 16"
    by (rule dec_x) simp
  also have "\<dots> = 4 * (?x' div 4) + ((?x' mod 4) * 16 + ?y' div 16) div 16"
    by (simp only: s1 s2)
  also have "\<dots> = ?x'"
    by (rule dec_x [symmetric]) simp
  finally have x: "?x = ?x'" .
  have "?y = 16 * (((?x mod 4) * 16 + ?y div 16) mod 16) + ((?y mod 16) * 4 + ?z div 64) div 4"
    by (rule dec_y) simp_all
  also have "\<dots> = 16 * (((?x' mod 4) * 16 + ?y' div 16) mod 16) + ((?y' mod 16) * 4 + ?z' div 64) div 4"
    by (simp only: s2 s3)
  also have "\<dots> = ?y'"
    by (rule dec_y [symmetric]) simp_all
  finally have y: "?y = ?y'" .
  have "?z = 64 * (((?y mod 16) * 4 + ?z div 64) mod 4) + ?z mod 64"
    by (rule dec_z) simp
  also have "\<dots> = 64 * (((?y' mod 16) * 4 + ?z' div 64) mod 4) + ?z' mod 64"
    by (simp only: s3 s4)
  also have "\<dots> = ?z'"
    by (rule dec_z [symmetric]) simp
  finally have z: "?z = ?z'" .
  from x y z show ?thesis by simp
qed

lemma quantum2_inj:
  fixes a b a' b' :: char
  assumes e1: "b64 (of_char a div 4) = b64 (of_char a' div 4)"
    and e2: "b64 ((of_char a mod 4) * 16 + of_char b div 16) =
             b64 ((of_char a' mod 4) * 16 + of_char b' div 16)"
    and e3: "b64 ((of_char b mod 16) * 4) = b64 ((of_char b' mod 16) * 4)"
  shows "a = a' \<and> b = b'"
proof -
  have "a = a' \<and> b = b' \<and> (char_of (0::nat)) = char_of (0::nat)"
    using e1 e2 e3 by (intro quantum3_inj) simp_all
  then show ?thesis by simp
qed

lemma quantum1_inj:
  fixes a a' :: char
  assumes e1: "b64 (of_char a div 4) = b64 (of_char a' div 4)"
    and e2: "b64 ((of_char a mod 4) * 16) = b64 ((of_char a' mod 4) * 16)"
  shows "a = a'"
proof -
  have "a = a' \<and> (char_of (0::nat)) = char_of (0::nat)"
    using e1 e2 by (intro quantum2_inj) simp_all
  then show ?thesis by simp
qed

lemma b64_pad_neq:
  "b64 (of_char c mod 64) \<noteq> CHR ''=''"
  "b64 ((of_char b mod 16) * 4 + of_char c div 64) \<noteq> CHR ''=''"
  "b64 ((of_char b mod 16) * 4) \<noteq> CHR ''=''"
  "CHR ''='' \<noteq> b64 (of_char c mod 64)"
  "CHR ''='' \<noteq> b64 ((of_char b mod 16) * 4 + of_char c div 64)"
  "CHR ''='' \<noteq> b64 ((of_char b mod 16) * 4)"
  using b64_not_pad [of "of_char c mod 64"]
    b64_not_pad [of "(of_char b mod 16) * 4 + of_char c div 64"]
    b64_not_pad [of "(of_char b mod 16) * 4"]
    char_sextet_bounds(4) [of c] char_sextet_bounds(3) [of b c] char_sextet_bounds(6) [of b]
  by simp_all

lemma base64_inj: "base64 xs = base64 ys \<Longrightarrow> xs = ys"
proof (induction xs arbitrary: ys rule: base64.induct)
  case (1 a b c rest)
  show ?case
  proof (cases ys rule: base64.cases)
    case (1 a' b' c' rest')
    from "1.prems" have q: "a = a' \<and> b = b' \<and> c = c'"
      unfolding 1 by (intro quantum3_inj) simp_all
    from "1.prems" have "base64 rest = base64 rest'"
      unfolding 1 by simp
    then have "rest = rest'" by (rule "1.IH")
    with q 1 show ?thesis by simp
  next
    case (2 a' b')
    with "1.prems" show ?thesis by (simp add: b64_pad_neq)
  next
    case (3 a')
    with "1.prems" show ?thesis by (simp add: b64_pad_neq)
  next
    case 4
    with "1.prems" show ?thesis by simp
  qed
next
  case (2 a b)
  show ?case
  proof (cases ys rule: base64.cases)
    case (1 a' b' c' rest')
    with "2.prems" show ?thesis by (simp add: b64_pad_neq)
  next
    case (2 a' b')
    from "2.prems" have "a = a' \<and> b = b'"
      unfolding 2 by (intro quantum2_inj) simp_all
    with 2 show ?thesis by simp
  next
    case (3 a')
    with "2.prems" show ?thesis by (simp add: b64_pad_neq)
  next
    case 4
    with "2.prems" show ?thesis by simp
  qed
next
  case (3 a)
  show ?case
  proof (cases ys rule: base64.cases)
    case (1 a' b' c' rest')
    with "3.prems" show ?thesis by (simp add: b64_pad_neq)
  next
    case (2 a' b')
    with "3.prems" show ?thesis by (simp add: b64_pad_neq)
  next
    case (3 a')
    from "3.prems" have "b64 (of_char a div 4) = b64 (of_char a' div 4)"
      and "b64 ((of_char a mod 4) * 16) = b64 ((of_char a' mod 4) * 16)"
      unfolding 3 by simp_all
    then have "a = a'" by (rule quantum1_inj)
    with 3 show ?thesis by simp
  next
    case 4
    with "3.prems" show ?thesis by simp
  qed
next
  case 4
  then show ?case by (cases ys rule: base64.cases) simp_all
qed

lemma Buffer_from_wellFormed: "isWellFormed s \<Longrightarrow> Buffer_from s = s"
  by (induction s rule: Buffer_from.induct) simp_all

lemma geocode_cacheKey_eq_iff:
  "(geocode_cacheKey s = geocode_cacheKey t) = (Buffer_from s = Buffer_from t)"
  by (auto simp: geocode_cacheKey_def dest: base64_inj)

lemma extract_cacheKey_eq_iff:
  "(extract_cacheKey s = extract_cacheKey t) = (Buffer_from s = Buffer_from t)"
  by (auto simp: extract_cacheKey_def dest: base64_inj)

lemma cacheKey_disjoint:
  "extract_cacheKey s \<noteq> geocode_cacheKey t" "geocode_cacheKey t \<noteq> extract_cacheKey s"
  by (simp_all add: geocode_cacheKey_def extract_cacheKey_def)

text \<open>
  C8, as stated, fails on strings with an unpaired surrogate: the strings
  \<^verbatim>\<open>"\ud800"\<close> and \<^verbatim>\<open>"\ud801"\<close> are different, and both have the key of U+FFFD.
\<close>

theorem surrogate_key_collision_counterexample:
  "[CHR 0xED, CHR 0xA0, CHR 0x80] \<noteq> [CHR 0xED, CHR 0xA0, CHR 0x81] \<and>
   geocode_cacheKey [CHR 0xED, CHR 0xA0, CHR 0x80] = ''geocode_77+9'' \<and>
   geocode_cacheKey [CHR 0xED, CHR 0xA0, CHR 0x81] = ''geocode_77+9'' \<and>
   geocode_cacheKey [CHR 0xEF, CHR 0xBF, CHR 0xBD] = ''geocode_77+9''"
  by (simp add: geocode_cacheKey_def surrogate_def b64_def base64_alphabet_def)

text \<open>
  C8, amended: the key is a function of the operation and of the text alone, so equal
  texts give equal keys; two texts have the same key exactly when their UTF-8
  encodings, with U+FFFD for every unpaired surrogate, are the same; so different
  well-formed texts have different keys, also when they differ only in case or in
  surrounding white space; and the keys of the two operations never meet.
\<close>

theorem cacheKey_injective:
  assumes "isWellFormed s" and "isWellFormed t"
  shows "(geocode_cacheKey s = geocode_cacheKey t) = (s = t) \<and>
   (extract_cacheKey s = extract_cacheKey t) = (s = t) \<and>
   (geocode_cacheKey u = geocode_cacheKey v) = (Buffer_from u = Buffer_from v) \<and>
   (extract_cacheKey u = extract_cacheKey v) = (Buffer_from u = Buffer_from v) \<and>
   geocode_cacheKey u \<noteq> extract_cacheKey v"
  using assms
  by (simp add: geocode_cacheKey_eq_iff extract_cacheKey_eq_iff Buffer_from_wellFormed
        cacheKey_disjoint)

theorem cacheKey_injective_witness:
  "isWellFormed ''Paris, France'' \<and> isWellFormed ''Paris, france'' \<and>
   geocode_cacheKey ''Paris, France'' \<noteq> geocode_cacheKey ''Paris, france'' \<and>
   isWellFormed ''Paris'' \<and> isWellFormed '' Paris '' \<and>
   extract_cacheKey ''Paris'' \<noteq> extract_cacheKey '' Paris ''"
  using cacheKey_injective [of "''Paris, France''" "''Paris, france''"]
    cacheKey_injective [of "''Paris''" "'' Paris ''"]
  by (simp add: surrogate_def)

section \<open>CacheService: expiry, upsert, failures of the medium\<close>

lemma cache_delete_available: "cache_delete Available tbl key = (True, tbl(key := None))"
  by (simp add: cache_delete_def supabase_delete_eq_def)

lemma cache_delete_failed: "m \<noteq> Available \<Longrightarrow> cache_delete m tbl key = (False, tbl)"
  by (cases m) (simp_all add: cache_delete_def supabase_delete_eq_def)

lemma cache_set_available:
  "abs (now + ttl * 60 * 1000) \<le> 8640000000000000 \<Longrightarrow>
   cache_set Available now tbl key v ttl =
     (True, tbl(key \<mapsto> \<lparr>cvalue = v, expires_at = now + ttl * 60 * 1000\<rparr>))"
  by (simp add: cache_set_def toISOString_def supabase_upsert_def)

lemma cache_set_out_of_range:
  "\<not> abs (now + ttl * 60 * 1000) \<le> 8640000000000000 \<Longrightarrow>
   cache_set m now tbl key v ttl = (False, tbl)"
  by (simp add: cache_set_def toISOString_def)

lemma cache_set_failed: "m \<noteq> Available \<Longrightarrow> cache_set m now tbl key v ttl = (False, tbl)"
  by (cases m) (simp_all add: cache_set_def toISOString_def supabase_upsert_def Let_def)

lemma cache_get_select_failed:
  "m \<noteq> Available \<Longrightarrow> cache_get m m' now tbl key = (None, tbl)"
  by (cases m) (simp_all add: cache_get_def supabase_select_single_def)

lemma cache_get_absent:
  "tbl key = None \<Longrightarrow> cache_get m m' now tbl key = (None, tbl)"
  by (cases m) (simp_all add: cache_get_def supabase_select_single_def)

lemma cache_get_present:
  "tbl key = Some row \<Longrightarrow>
   cache_get Available m' now tbl key =
     (if expires_at row < now then (None, snd (cache_delete m' tbl key))
      else (Some (cvalue row), tbl))"
  by (simp add: cache_get_def supabase_select_single_def split: prod.splits)

text \<open>
  C2, as stated, fails at the instant of expiry: a read at \<open>t = expiresAt\<close> returns
  the value and leaves the entry, because the test is \<^verbatim>\<open>expires_at < now\<close>.
\<close>

theorem get_at_expiry_counterexample:
  "expires_at \<lparr>cvalue = JStr ''v'', expires_at = 1000\<rparr> \<le> 1000 \<and>
   fst (cache_get Available Available 1000
          [''k'' \<mapsto> \<lparr>cvalue = JStr ''v'', expires_at = 1000\<rparr>] ''k'') = Some (JStr ''v'') \<and>
   snd (cache_get Available Available 1000
          [''k'' \<mapsto> \<lparr>cvalue = JStr ''v'', expires_at = 1000\<rparr>] ''k'') ''k'' =
     Some \<lparr>cvalue = JStr ''v'', expires_at = 1000\<rparr>"
  by (simp add: cache_get_def supabase_select_single_def)

text \<open>
  C2, amended: with the medium answering the select, a read at \<open>t \<le> expiresAt\<close>
  returns the cached value and leaves the table as it is; a read at \<open>t > expiresAt\<close>
  returns the miss, and the entry is gone afterwards when the medium performs the
  delete (it stays when the delete fails).
\<close>

theorem get_ttl:
  assumes "tbl key = Some row"
  shows "cache_get Available m_delete now tbl key =
     (if expires_at row < now
      then (None, if m_delete = Available then tbl(key := None) else tbl)
      else (Some (cvalue row), tbl))"
  using assms
  by (simp add: cache_get_present cache_delete_available cache_delete_failed)

theorem get_ttl_witness:
  "cache_get Available Available 1001
     [''k'' \<mapsto> \<lparr>cvalue = JStr ''v'', expires_at = 1000\<rparr>] ''k'' = (None, Map.empty) \<and>
   cache_get Available Rejected 999
     [''k'' \<mapsto> \<lparr>cvalue = JStr ''v'', expires_at = 1000\<rparr>] ''k'' =
     (Some (JStr ''v''), [''k'' \<mapsto> \<lparr>cvalue = JStr ''v'', expires_at = 1000\<rparr>])"
  using get_ttl [of "[''k'' \<mapsto> \<lparr>cvalue = JStr ''v'', expires_at = 1000\<rparr>]" "''k''"
                    "\<lparr>cvalue = JStr ''v'', expires_at = 1000\<rparr>" Available 1001]
        get_ttl [of "[''k'' \<mapsto> \<lparr>cvalue = JStr ''v'', expires_at = 1000\<rparr>]" "''k''"
                    "\<lparr>cvalue = JStr ''v'', expires_at = 1000\<rparr>" Rejected 999]
  by simp

text \<open>
  C6: when the medium fails, \<^verbatim>\<open>get\<close> returns the miss, \<^verbatim>\<open>set\<close> and
  \<^verbatim>\<open>delete\<close> return \<^verbatim>\<open>false\<close>, the table is as before, and a failure of the
  delete inside \<^verbatim>\<open>get\<close> does not change what \<^verbatim>\<open>get\<close> returns. None of the
  three has an exceptional result.
\<close>

theorem cache_swallows_storage_failure:
  assumes "m \<noteq> Available"
  shows "cache_get m m' now tbl key = (None, tbl) \<and>
         cache_set m now tbl key v ttl = (False, tbl) \<and>
         cache_delete m tbl key = (False, tbl) \<and>
         fst (cache_get Available m now tbl key) = fst (cache_get Available Available now tbl key)"
proof -
  have "fst (cache_get Available m now tbl key) = fst (cache_get Available Available now tbl key)"
    by (cases "tbl key") (simp_all add: cache_get_absent cache_get_present)
  with assms show ?thesis
    by (simp add: cache_get_select_failed cache_set_failed cache_delete_failed)
qed

theorem cache_swallows_storage_failure_witness:
  "cache_get Rejected ErrorReply 5 [''k'' \<mapsto> \<lparr>cvalue = JStr ''v'', expires_at = 9\<rparr>] ''k'' =
     (None, [''k'' \<mapsto> \<lparr>cvalue = JStr ''v'', expires_at = 9\<rparr>]) \<and>
   cache_set Rejected 5 Map.empty ''k'' (JStr ''v'') 60 = (False, Map.empty) \<and>
   cache_delete Rejected [''k'' \<mapsto> \<lparr>cvalue = JStr ''v'', expires_at = 9\<rparr>] ''k'' =
     (False, [''k'' \<mapsto> \<lparr>cvalue = JStr ''v'', expires_at = 9\<rparr>])"
  using cache_swallows_storage_failure [of Rejected ErrorReply 5
          "[''k'' \<mapsto> \<lparr>cvalue = JStr ''v'', expires_at = 9\<rparr>]" "''k''"]
        cache_swallows_storage_failure [of Rejected Available 5 Map.empty "''k''" "JStr ''v''" 60]
  by simp




section \<open>geocodeLocation: cache hit, fallback order, negative caching\<close>

lemma store_eq:
  "store io tbl key v ttl =
     (if upsert_medium io = Available \<and> abs (set_clock io + ttl * 60 * 1000) \<le> 8640000000000000
      then tbl(key \<mapsto> \<lparr>cvalue = v, expires_at = set_clock io + ttl * 60 * 1000\<rparr>)
      else tbl)"
proof (cases "upsert_medium io = Available")
  case False
  then show ?thesis by (simp add: store_def cache_set_failed)
next
  case True
  then show ?thesis
    by (cases "abs (set_clock io + ttl * 60 * 1000) \<le> 8640000000000000")
       (simp_all add: store_def cache_set_available cache_set_out_of_range)
qed

lemma lookup_hit_table:
  assumes "lookup io tbl key = (Some v, tbl1)"
  shows "tbl1 = tbl"
proof (cases "select_medium io = Available")
  case False
  with assms show ?thesis by (simp add: lookup_def cache_get_select_failed)
next
  case True
  show ?thesis
  proof (cases "tbl key")
    case None
    with assms show ?thesis by (simp add: lookup_def cache_get_absent)
  next
    case (Some row)
    with assms True show ?thesis
      by (simp add: lookup_def cache_get_present split: if_splits)
  qed
qed

lemma geocodeLocation_hit:
  assumes "lookup (cache_io env) tbl (geocode_cacheKey name) = (Some v, tbl1)" and "truthy v"
  shows "geocodeLocation env tbl (JStr name) = (Inr v, tbl1, [])"
  using assms by (simp add: geocodeLocation_def)

lemma geocodeLocation_miss:
  assumes "lookup (cache_io env) tbl (geocode_cacheKey name) = (c, tbl1)" and "\<not> hit c"
  shows "geocodeLocation env tbl (JStr name) =
           (Inr (fst (resolve env tbl1 (geocode_cacheKey name) name)),
            snd (resolve env tbl1 (geocode_cacheKey name) name))"
  using assms by (cases c) (simp_all add: geocodeLocation_def split: prod.splits)

lemma resolve_google:
  assumes "google_attempt env name = Matched r"
  shows "resolve env tbl key name = (JGeo r, store (cache_io env) tbl key (JGeo r) 1440, [GoogleMaps])"
  using assms by (simp add: resolve_def)

lemma resolve_mapbox:
  assumes "\<not> matched (google_attempt env name)" and "mapbox_attempt env name = Matched r"
  shows "resolve env tbl key name =
           (JGeo r, store (cache_io env) tbl key (JGeo r) 1440,
            invoked GoogleMaps (google_attempt env name) @ [Mapbox])"
  using assms by (cases "google_attempt env name") (simp_all add: resolve_def)

lemma resolve_osm:
  assumes "\<not> matched (google_attempt env name)" and "\<not> matched (mapbox_attempt env name)"
    and "osm_attempt env name = Matched r"
  shows "resolve env tbl key name =
           (JGeo r, store (cache_io env) tbl key (JGeo r) 1440,
            invoked GoogleMaps (google_attempt env name) @
            invoked Mapbox (mapbox_attempt env name) @ [OpenStreetMap])"
  using assms
  by (cases "google_attempt env name"; cases "mapbox_attempt env name")
     (simp_all add: resolve_def)

lemma resolve_none:
  assumes "\<not> matched (google_attempt env name)" and "\<not> matched (mapbox_attempt env name)"
    and "\<not> matched (osm_attempt env name)"
  shows "resolve env tbl key name =
           (JGeo (unresolved name), store (cache_io env) tbl key (JGeo (unresolved name)) 60,
            invoked GoogleMaps (google_attempt env name) @
            invoked Mapbox (mapbox_attempt env name) @ [OpenStreetMap])"
  using assms
  by (cases "google_attempt env name"; cases "mapbox_attempt env name";
      cases "osm_attempt env name")
     (simp_all add: resolve_def unresolved_def Let_def)

lemma google_provider:
  "google_attempt env name = Matched r \<Longrightarrow> geocoding_provider r = Some ''google_maps''"
  by (auto simp: google_attempt_def split: if_splits fetched.splits sum.splits)

lemma mapbox_provider:
  "mapbox_attempt env name = Matched r \<Longrightarrow> geocoding_provider r = Some ''mapbox''"
  by (auto simp: mapbox_attempt_def split: if_splits fetched.splits option.splits sum.splits)

lemma osm_provider:
  "osm_attempt env name = Matched r \<Longrightarrow> geocoding_provider r = Some ''openstreetmap''"
  by (auto simp: osm_attempt_def split: if_splits fetched.splits sum.splits)

lemma google_NotConfigured:
  "(google_attempt env name = NotConfigured) = (\<not> configured (GOOGLE_MAPS_API_KEY env))"
  by (simp add: google_attempt_def split: fetched.splits sum.splits)

lemma mapbox_NotConfigured:
  "(mapbox_attempt env name = NotConfigured) = (\<not> configured (MAPBOX_API_KEY env))"
  by (simp add: mapbox_attempt_def split: fetched.splits option.splits sum.splits)

lemma invoked_set: "set (invoked p a) = (if a = NotConfigured then {} else {p})"
  by (cases a) simp_all


lemma not_matched_iff: "(\<not> matched a) = (a \<in> {NotConfigured, ZeroMatches, Raised})"
  by (cases a) simp_all

text \<open>
  C4: when the lookup of the geocode key returns a truthy value (the object of an
  earlier failure is one), \<^verbatim>\<open>geocodeLocation\<close> returns it, no adapter is sent a
  request, and the table is as before.
\<close>

theorem cache_hit_no_provider:
  assumes "lookup (cache_io env) tbl (geocode_cacheKey name) = (Some v, tbl1)" and "truthy v"
  shows "geocodeLocation env tbl (JStr name) = (Inr v, tbl, []) \<and> tbl1 = tbl"
  using assms geocodeLocation_hit [OF assms] lookup_hit_table [OF assms(1)] by simp

theorem cache_hit_no_provider_witness:
  "geocodeLocation scenario_fallback
     [geocode_cacheKey ''Nowhereland'' \<mapsto>
        \<lparr>cvalue = JGeo (unresolved ''Nowhereland''), expires_at = 5000\<rparr>]
     (JStr ''Nowhereland'') =
   (Inr (JGeo (unresolved ''Nowhereland'')),
    [geocode_cacheKey ''Nowhereland'' \<mapsto>
        \<lparr>cvalue = JGeo (unresolved ''Nowhereland''), expires_at = 5000\<rparr>],
    [])"
  using cache_hit_no_provider [of scenario_fallback
      "[geocode_cacheKey ''Nowhereland'' \<mapsto>
          \<lparr>cvalue = JGeo (unresolved ''Nowhereland''), expires_at = 5000\<rparr>]"
      "''Nowhereland''" "JGeo (unresolved ''Nowhereland'')"
      "[geocode_cacheKey ''Nowhereland'' \<mapsto>
          \<lparr>cvalue = JGeo (unresolved ''Nowhereland''), expires_at = 5000\<rparr>]"]
  by (simp add: scenario_fallback_def always_up_def lookup_def cache_get_present)

lemma sent_subseqs:
  "invoked GoogleMaps a @ invoked Mapbox b @ [OpenStreetMap]
     \<in> set (subseqs [GoogleMaps, Mapbox, OpenStreetMap])"
  "invoked GoogleMaps a @ [Mapbox] \<in> set (subseqs [GoogleMaps, Mapbox, OpenStreetMap])"
  "[GoogleMaps] \<in> set (subseqs [GoogleMaps, Mapbox, OpenStreetMap])"
  by (cases a; cases b; simp)+

lemma resolve_cases:
  obtains (google) r where "google_attempt env name = Matched r"
  | (mapbox) r where "\<not> matched (google_attempt env name)" "mapbox_attempt env name = Matched r"
  | (osm) r where "\<not> matched (google_attempt env name)" "\<not> matched (mapbox_attempt env name)"
      "osm_attempt env name = Matched r"
  | (none) "\<not> matched (google_attempt env name)" "\<not> matched (mapbox_attempt env name)"
      "\<not> matched (osm_attempt env name)"
  by (cases "google_attempt env name"; cases "mapbox_attempt env name";
      cases "osm_attempt env name") simp_all

lemma resolve_sent_order:
  "snd (snd (resolve env tbl key name)) \<in> set (subseqs [GoogleMaps, Mapbox, OpenStreetMap])"
proof (cases env name rule: resolve_cases)
  case (google r)
  from resolve_google [OF this] show ?thesis by (simp only: snd_conv sent_subseqs)
next
  case (mapbox r)
  from resolve_mapbox [OF this] show ?thesis by (simp only: snd_conv sent_subseqs)
next
  case (osm r)
  from resolve_osm [OF this] show ?thesis by (simp only: snd_conv sent_subseqs)
next
  case none
  from resolve_none [OF this] show ?thesis by (simp only: snd_conv sent_subseqs)
qed

lemma resolve_sent_google:
  "(GoogleMaps \<in> set (snd (snd (resolve env tbl key name)))) =
     configured (GOOGLE_MAPS_API_KEY env)"
proof (cases env name rule: resolve_cases)
  case (google r)
  then have "google_attempt env name \<noteq> NotConfigured" by simp
  then have "configured (GOOGLE_MAPS_API_KEY env)" by (simp add: google_NotConfigured)
  with google show ?thesis by (simp add: resolve_google)
next
  case (mapbox r)
  then show ?thesis by (simp add: resolve_mapbox invoked_set google_NotConfigured)
next
  case (osm r)
  then show ?thesis by (simp add: resolve_osm invoked_set google_NotConfigured)
next
  case none
  then show ?thesis by (simp add: resolve_none invoked_set google_NotConfigured)
qed

lemma resolve_sent_mapbox:
  "(Mapbox \<in> set (snd (snd (resolve env tbl key name)))) =
     (\<not> matched (google_attempt env name) \<and> configured (MAPBOX_API_KEY env))"
proof (cases env name rule: resolve_cases)
  case (google r)
  then show ?thesis by (simp add: resolve_google)
next
  case (mapbox r)
  then have "mapbox_attempt env name \<noteq> NotConfigured" by simp
  then have "configured (MAPBOX_API_KEY env)" by (simp add: mapbox_NotConfigured)
  with mapbox show ?thesis by (simp add: resolve_mapbox invoked_set)
next
  case (osm r)
  then show ?thesis by (simp add: resolve_osm invoked_set mapbox_NotConfigured)
next
  case none
  then show ?thesis by (simp add: resolve_none invoked_set mapbox_NotConfigured)
qed

lemma resolve_sent_osm:
  "(OpenStreetMap \<in> set (snd (snd (resolve env tbl key name)))) =
     (\<not> matched (google_attempt env name) \<and> \<not> matched (mapbox_attempt env name))"
proof (cases env name rule: resolve_cases)
  case (google r)
  then show ?thesis by (simp add: resolve_google)
next
  case (mapbox r)
  then show ?thesis by (simp add: resolve_mapbox invoked_set)
next
  case (osm r)
  then show ?thesis by (simp add: resolve_osm invoked_set)
next
  case none
  then show ?thesis by (simp add: resolve_none invoked_set)
qed

lemma resolve_value: "\<exists>r. fst (resolve env tbl key name) = JGeo r"
  by (cases env name rule: resolve_cases)
     (simp_all add: resolve_google resolve_mapbox resolve_osm resolve_none)
lemma matched_google_iff:
  "matched (google_attempt env name) =
     (configured (GOOGLE_MAPS_API_KEY env) \<and>
      (\<exists>q data. encodeURIComponent name = Inr q \<and> fetch_google env q = Json data \<and>
         status data = ''OK'' \<and> results data \<noteq> []))"
  by (auto simp: google_attempt_def split: fetched.splits sum.splits)

lemma matched_mapbox_iff:
  "matched (mapbox_attempt env name) =
     (configured (MAPBOX_API_KEY env) \<and>
      (\<exists>q data f fs. encodeURIComponent name = Inr q \<and> fetch_mapbox env q = Json data \<and>
         features data = Some (f # fs)))"
  by (auto simp: mapbox_attempt_def neq_Nil_conv split: fetched.splits sum.splits option.splits)

lemma matched_osm_iff:
  "matched (osm_attempt env name) =
     (\<exists>q p ps. encodeURIComponent name = Inr q \<and> fetch_nominatim env q = Json (p # ps))"
  by (auto simp: osm_attempt_def neq_Nil_conv split: fetched.splits sum.splits)

lemma encodeURIComponent_wellFormed:
  "isWellFormed s \<Longrightarrow> encodeURIComponent s = Inr (concat (map percent s))"
  by (simp add: encodeURIComponent_def)

lemma encode_Manhattan: "encodeURIComponent ''Manhattan'' = Inr ''Manhattan''"
  by (simp add: encodeURIComponent_def surrogate_def percent_def unreserved_def)

lemma scenario_fallback_attempts:
  "google_attempt scenario_fallback ''Manhattan'' = Raised"
  "mapbox_attempt scenario_fallback ''Manhattan'' =
     Matched \<lparr>latitude = Some (40715 / 1000), longitude = Some (- 7398 / 100),
              formatted_address = ''Lower East Side, Manhattan'',
              geocoding_provider = Some ''mapbox'', confidence = ''high''\<rparr>"
  by (simp_all add: google_attempt_def mapbox_attempt_def scenario_fallback_def
        encode_Manhattan double_0_8_def)

lemma scenario_fallback_run:
  "geocodeLocation scenario_fallback Map.empty (JStr ''Manhattan'') =
     (Inr (JGeo \<lparr>latitude = Some (40715 / 1000), longitude = Some (- 7398 / 100),
                  formatted_address = ''Lower East Side, Manhattan'',
                  geocoding_provider = Some ''mapbox'', confidence = ''high''\<rparr>),
      [geocode_cacheKey ''Manhattan'' \<mapsto>
         \<lparr>cvalue = JGeo \<lparr>latitude = Some (40715 / 1000), longitude = Some (- 7398 / 100),
                          formatted_address = ''Lower East Side, Manhattan'',
                          geocoding_provider = Some ''mapbox'', confidence = ''high''\<rparr>,
          expires_at = 86402000\<rparr>],
      [GoogleMaps, Mapbox])"
proof -
  have "lookup (cache_io scenario_fallback) Map.empty (geocode_cacheKey ''Manhattan'') =
      (None, Map.empty)"
    by (simp add: lookup_def cache_get_absent)
  then show ?thesis
    by (simp add: geocodeLocation_def resolve_def scenario_fallback_attempts store_eq)
       (simp add: scenario_fallback_def always_up_def)
qed

lemma scenario_google_attempt:
  "google_attempt scenario_google ''Manhattan'' =
     Matched \<lparr>latitude = Some (40715 / 1000), longitude = Some (- 7398 / 100),
              formatted_address = ''Lower East Side, New York, NY, USA'',
              geocoding_provider = Some ''google_maps'', confidence = ''high''\<rparr>"
  by (simp add: google_attempt_def scenario_google_def
        encode_Manhattan)

lemma scenario_google_run:
  "geocodeLocation scenario_google Map.empty (JStr ''Manhattan'') =
     (Inr (JGeo \<lparr>latitude = Some (40715 / 1000), longitude = Some (- 7398 / 100),
                  formatted_address = ''Lower East Side, New York, NY, USA'',
                  geocoding_provider = Some ''google_maps'', confidence = ''high''\<rparr>),
      [geocode_cacheKey ''Manhattan'' \<mapsto>
         \<lparr>cvalue = JGeo \<lparr>latitude = Some (40715 / 1000), longitude = Some (- 7398 / 100),
                          formatted_address = ''Lower East Side, New York, NY, USA'',
                          geocoding_provider = Some ''google_maps'', confidence = ''high''\<rparr>,
          expires_at = 86402000\<rparr>],
      [GoogleMaps])"
proof -
  have "lookup (cache_io scenario_google) Map.empty (geocode_cacheKey ''Manhattan'') =
      (None, Map.empty)"
    by (simp add: lookup_def cache_get_absent)
  then show ?thesis
    by (simp add: geocodeLocation_def resolve_def scenario_google_attempt store_eq)
       (simp add: scenario_google_def always_up_def)
qed

text \<open>
  C1: on a miss, the adapters are tried in the order Google Maps, Mapbox,
  OpenStreetMap. Google Maps is tried when it is configured; Mapbox when it is
  configured and Google Maps did not match; OpenStreetMap when neither matched. An
  adapter matches when it is configured, the name can be encoded, the service
  answers, and the answer holds at least one match (for Google Maps, with status
  \<^verbatim>\<open>OK\<close>); not to match is, by \<open>not_matched_iff\<close>, to be not configured, to return
  no match or to raise. The first adapter that matches gives the returned object and
  its provider name and is the last one tried; the object is written with a time to
  live of 1440 minutes: when the medium is available (and the expiry is a date) the
  table afterwards holds the object under the key with expiry \<open>set_clock\<close> + 1440
  minutes, and otherwise it is unchanged. The resolution always returns an object.
\<close>

theorem fallback_priority_order:
  assumes "lookup (cache_io env) tbl (geocode_cacheKey name) = (c, tbl1)" and "\<not> hit c"
    and "geocodeLocation env tbl (JStr name) = (res, tbl2, sent)"
  shows "sent \<in> set (subseqs [GoogleMaps, Mapbox, OpenStreetMap]) \<and>
    (GoogleMaps \<in> set sent) = configured (GOOGLE_MAPS_API_KEY env) \<and>
    (Mapbox \<in> set sent) =
      (\<not> matched (google_attempt env name) \<and> configured (MAPBOX_API_KEY env)) \<and>
    (OpenStreetMap \<in> set sent) =
      (\<not> matched (google_attempt env name) \<and> \<not> matched (mapbox_attempt env name)) \<and>
    matched (google_attempt env name) =
      (configured (GOOGLE_MAPS_API_KEY env) \<and>
       (\<exists>q data. encodeURIComponent name = Inr q \<and> fetch_google env q = Json data \<and>
          status data = ''OK'' \<and> results data \<noteq> [])) \<and>
    matched (mapbox_attempt env name) =
      (configured (MAPBOX_API_KEY env) \<and>
       (\<exists>q data f fs. encodeURIComponent name = Inr q \<and> fetch_mapbox env q = Json data \<and>
          features data = Some (f # fs))) \<and>
    matched (osm_attempt env name) =
      (\<exists>q p ps. encodeURIComponent name = Inr q \<and> fetch_nominatim env q = Json (p # ps)) \<and>
    (\<forall>r. google_attempt env name = Matched r \<longrightarrow>
       res = Inr (JGeo r) \<and> geocoding_provider r = Some ''google_maps'' \<and>
       sent = [GoogleMaps] \<and>
       tbl2 =
         (if upsert_medium (cache_io env) = Available \<and>
             abs (set_clock (cache_io env) + 1440 * 60 * 1000) \<le> 8640000000000000
          then tbl1(geocode_cacheKey name \<mapsto>
                 \<lparr>cvalue = JGeo r, expires_at = set_clock (cache_io env) + 1440 * 60 * 1000\<rparr>)
          else tbl1)) \<and>
    (\<forall>r. \<not> matched (google_attempt env name) \<and> mapbox_attempt env name = Matched r \<longrightarrow>
       res = Inr (JGeo r) \<and> geocoding_provider r = Some ''mapbox'' \<and>
       last sent = Mapbox \<and>
       tbl2 =
         (if upsert_medium (cache_io env) = Available \<and>
             abs (set_clock (cache_io env) + 1440 * 60 * 1000) \<le> 8640000000000000
          then tbl1(geocode_cacheKey name \<mapsto>
                 \<lparr>cvalue = JGeo r, expires_at = set_clock (cache_io env) + 1440 * 60 * 1000\<rparr>)
          else tbl1)) \<and>
    (\<forall>r. \<not> matched (google_attempt env name) \<and> \<not> matched (mapbox_attempt env name) \<and>
         osm_attempt env name = Matched r \<longrightarrow>
       res = Inr (JGeo r) \<and> geocoding_provider r = Some ''openstreetmap'' \<and>
       last sent = OpenStreetMap \<and>
       tbl2 =
         (if upsert_medium (cache_io env) = Available \<and>
             abs (set_clock (cache_io env) + 1440 * 60 * 1000) \<le> 8640000000000000
          then tbl1(geocode_cacheKey name \<mapsto>
                 \<lparr>cvalue = JGeo r, expires_at = set_clock (cache_io env) + 1440 * 60 * 1000\<rparr>)
          else tbl1)) \<and>
    (\<exists>r. res = Inr (JGeo r))"
proof -
  let ?key = "geocode_cacheKey name"
  let ?written = "\<lambda>r. if upsert_medium (cache_io env) = Available \<and>
             abs (set_clock (cache_io env) + 1440 * 60 * 1000) \<le> 8640000000000000
          then tbl1(?key \<mapsto>
                 \<lparr>cvalue = JGeo r, expires_at = set_clock (cache_io env) + 1440 * 60 * 1000\<rparr>)
          else tbl1"
  have written: "store (cache_io env) tbl1 ?key (JGeo r) 1440 = ?written r" for r
    by (simp add: store_eq)
  from geocodeLocation_miss [OF assms(1,2)] assms(3)
  have res: "res = Inr (fst (resolve env tbl1 ?key name))"
    and rest: "(tbl2, sent) = snd (resolve env tbl1 ?key name)"
    by simp_all
  from rest have sent: "sent = snd (snd (resolve env tbl1 ?key name))"
    and tbl2: "tbl2 = fst (snd (resolve env tbl1 ?key name))"
    by (simp_all add: prod_eq_iff)
  have order: "sent \<in> set (subseqs [GoogleMaps, Mapbox, OpenStreetMap])"
    unfolding sent by (rule resolve_sent_order)
  have g: "(GoogleMaps \<in> set sent) = configured (GOOGLE_MAPS_API_KEY env)"
    unfolding sent by (rule resolve_sent_google)
  have m: "(Mapbox \<in> set sent) =
      (\<not> matched (google_attempt env name) \<and> configured (MAPBOX_API_KEY env))"
    unfolding sent by (rule resolve_sent_mapbox)
  have o: "(OpenStreetMap \<in> set sent) =
      (\<not> matched (google_attempt env name) \<and> \<not> matched (mapbox_attempt env name))"
    unfolding sent by (rule resolve_sent_osm)
  have first: "\<forall>r. google_attempt env name = Matched r \<longrightarrow>
       res = Inr (JGeo r) \<and> geocoding_provider r = Some ''google_maps'' \<and>
       sent = [GoogleMaps] \<and> tbl2 = ?written r"
    unfolding res sent tbl2 written [symmetric]
    by (auto simp: resolve_google dest: google_provider)
  have second: "\<forall>r. \<not> matched (google_attempt env name) \<and> mapbox_attempt env name = Matched r \<longrightarrow>
       res = Inr (JGeo r) \<and> geocoding_provider r = Some ''mapbox'' \<and>
       last sent = Mapbox \<and> tbl2 = ?written r"
    unfolding res sent tbl2 written [symmetric]
    by (auto simp: resolve_mapbox dest: mapbox_provider)
  have third: "\<forall>r. \<not> matched (google_attempt env name) \<and> \<not> matched (mapbox_attempt env name) \<and>
         osm_attempt env name = Matched r \<longrightarrow>
       res = Inr (JGeo r) \<and> geocoding_provider r = Some ''openstreetmap'' \<and>
       last sent = OpenStreetMap \<and> tbl2 = ?written r"
    unfolding res sent tbl2 written [symmetric]
    by (auto simp: resolve_osm dest: osm_provider)
  have val: "\<exists>r. res = Inr (JGeo r)"
    unfolding res using resolve_value [of env tbl1 ?key name] by auto
  note pins = matched_google_iff [of env name] matched_mapbox_iff [of env name]
    matched_osm_iff [of env name]
  from order g m o pins first second third val show ?thesis by blast
qed

theorem fallback_priority_order_witness:
  "lookup (cache_io scenario_fallback) Map.empty (geocode_cacheKey ''Manhattan'') =
     (None, Map.empty) \<and>
   \<not> hit None \<and>
   \<not> matched (google_attempt scenario_fallback ''Manhattan'') \<and>
   geocodeLocation scenario_fallback Map.empty (JStr ''Manhattan'') =
     (Inr (JGeo \<lparr>latitude = Some (40715 / 1000), longitude = Some (- 7398 / 100),
                  formatted_address = ''Lower East Side, Manhattan'',
                  geocoding_provider = Some ''mapbox'', confidence = ''high''\<rparr>),
      [geocode_cacheKey ''Manhattan'' \<mapsto>
         \<lparr>cvalue = JGeo \<lparr>latitude = Some (40715 / 1000), longitude = Some (- 7398 / 100),
                          formatted_address = ''Lower East Side, Manhattan'',
                          geocoding_provider = Some ''mapbox'', confidence = ''high''\<rparr>,
          expires_at = 2000 + 1440 * 60 * 1000\<rparr>],
      [GoogleMaps, Mapbox]) \<and>
   matched (google_attempt scenario_google ''Manhattan'') \<and>
   geocodeLocation scenario_google Map.empty (JStr ''Manhattan'') =
     (Inr (JGeo \<lparr>latitude = Some (40715 / 1000), longitude = Some (- 7398 / 100),
                  formatted_address = ''Lower East Side, New York, NY, USA'',
                  geocoding_provider = Some ''google_maps'', confidence = ''high''\<rparr>),
      [geocode_cacheKey ''Manhattan'' \<mapsto>
         \<lparr>cvalue = JGeo \<lparr>latitude = Some (40715 / 1000), longitude = Some (- 7398 / 100),
                          formatted_address = ''Lower East Side, New York, NY, USA'',
                          geocoding_provider = Some ''google_maps'', confidence = ''high''\<rparr>,
          expires_at = 2000 + 1440 * 60 * 1000\<rparr>],
      [GoogleMaps])"
proof -
  have l: "lookup (cache_io scenario_fallback) Map.empty (geocode_cacheKey ''Manhattan'') =
      (None, Map.empty)"
    by (simp add: lookup_def cache_get_absent)
  have l': "lookup (cache_io scenario_google) Map.empty (geocode_cacheKey ''Manhattan'') =
      (None, Map.empty)"
    by (simp add: lookup_def cache_get_absent)
  have h: "\<not> hit None" by simp
  from fallback_priority_order [OF l h scenario_fallback_run]
    fallback_priority_order [OF l' h scenario_google_run] l
  show ?thesis
    by (simp add: scenario_fallback_attempts scenario_google_attempt
          scenario_fallback_run scenario_google_run)
qed

lemma scenario_nowhere_attempts:
  "google_attempt scenario_nowhere name = NotConfigured"
  "\<not> matched (mapbox_attempt scenario_nowhere name)"
  "invoked Mapbox (mapbox_attempt scenario_nowhere name) = [Mapbox]"
  "\<not> matched (osm_attempt scenario_nowhere name)"
  by (simp_all add: google_attempt_def mapbox_attempt_def osm_attempt_def scenario_nowhere_def
        split: sum.splits)

text \<open>
  C3: on a miss where no adapter matches, \<^verbatim>\<open>geocodeLocation\<close> returns the object
  with null coordinates, the name as address, null as provider and confidence
  \<^verbatim>\<open>unknown\<close>, and writes it with a time to live of 60 minutes. When that write
  reached the table (the medium is available and the expiry is within the range of
  \<^verbatim>\<open>Date\<close>), a second resolution of the name whose lookup is answered no
  later than the expiry returns the same object, whatever the adapters would now
  answer, and sends no request.
\<close>

theorem negative_result_cached:
  assumes "lookup (cache_io env) tbl (geocode_cacheKey name) = (c, tbl1)" and "\<not> hit c"
    and "\<not> matched (google_attempt env name)"
    and "\<not> matched (mapbox_attempt env name)"
    and "\<not> matched (osm_attempt env name)"
  shows "(let negative = JGeo \<lparr>latitude = None, longitude = None, formatted_address = name,
                               geocoding_provider = None, confidence = ''unknown''\<rparr>;
              tbl2 = store (cache_io env) tbl1 (geocode_cacheKey name) negative 60
          in geocodeLocation env tbl (JStr name) =
               (Inr negative, tbl2,
                invoked GoogleMaps (google_attempt env name) @
                invoked Mapbox (mapbox_attempt env name) @ [OpenStreetMap]) \<and>
             (upsert_medium (cache_io env) = Available \<and>
              abs (set_clock (cache_io env) + 60 * 60 * 1000) \<le> 8640000000000000 \<and>
              select_medium (cache_io env') = Available \<and>
              get_clock (cache_io env') \<le> set_clock (cache_io env) + 60 * 60 * 1000 \<longrightarrow>
              tbl2 (geocode_cacheKey name) =
                Some \<lparr>cvalue = negative,
                      expires_at = set_clock (cache_io env) + 60 * 60 * 1000\<rparr> \<and>
              geocodeLocation env' tbl2 (JStr name) = (Inr negative, tbl2, [])))"
proof -
  let ?key = "geocode_cacheKey name"
  let ?neg = "JGeo (unresolved name)"
  let ?tbl2 = "store (cache_io env) tbl1 ?key ?neg 60"
  have first: "geocodeLocation env tbl (JStr name) =
      (Inr ?neg, ?tbl2,
       invoked GoogleMaps (google_attempt env name) @
       invoked Mapbox (mapbox_attempt env name) @ [OpenStreetMap])"
    using geocodeLocation_miss [OF assms(1,2)] resolve_none [OF assms(3-5)] by simp
  have second: "?tbl2 ?key =
      Some \<lparr>cvalue = ?neg, expires_at = set_clock (cache_io env) + 60 * 60 * 1000\<rparr> \<and>
      geocodeLocation env' ?tbl2 (JStr name) = (Inr ?neg, ?tbl2, [])"
    if up: "upsert_medium (cache_io env) = Available"
      and date: "abs (set_clock (cache_io env) + 60 * 60 * 1000) \<le> 8640000000000000"
      and sel: "select_medium (cache_io env') = Available"
      and t: "get_clock (cache_io env') \<le> set_clock (cache_io env) + 60 * 60 * 1000"
  proof -
    have row: "?tbl2 ?key =
        Some \<lparr>cvalue = ?neg, expires_at = set_clock (cache_io env) + 60 * 60 * 1000\<rparr>"
      using up date by (simp add: store_eq)
    have "lookup (cache_io env') ?tbl2 ?key = (Some ?neg, ?tbl2)"
      using sel t row by (simp add: lookup_def cache_get_present)
    then have "geocodeLocation env' ?tbl2 (JStr name) = (Inr ?neg, ?tbl2, [])"
      by (rule geocodeLocation_hit) simp
    with row show ?thesis by simp
  qed
  from first second show ?thesis
    by (simp add: Let_def unresolved_def)
qed

theorem negative_result_cached_witness:
  "geocodeLocation scenario_nowhere Map.empty (JStr ''Nowhereland'') =
     (Inr (JGeo \<lparr>latitude = None, longitude = None, formatted_address = ''Nowhereland'',
                  geocoding_provider = None, confidence = ''unknown''\<rparr>),
      [geocode_cacheKey ''Nowhereland'' \<mapsto>
         \<lparr>cvalue = JGeo \<lparr>latitude = None, longitude = None,
                          formatted_address = ''Nowhereland'',
                          geocoding_provider = None, confidence = ''unknown''\<rparr>,
          expires_at = 3602000\<rparr>],
      [Mapbox, OpenStreetMap]) \<and>
   geocodeLocation scenario_fallback
      [geocode_cacheKey ''Nowhereland'' \<mapsto>
         \<lparr>cvalue = JGeo \<lparr>latitude = None, longitude = None,
                          formatted_address = ''Nowhereland'',
                          geocoding_provider = None, confidence = ''unknown''\<rparr>,
          expires_at = 3602000\<rparr>]
      (JStr ''Nowhereland'') =
     (Inr (JGeo \<lparr>latitude = None, longitude = None, formatted_address = ''Nowhereland'',
                  geocoding_provider = None, confidence = ''unknown''\<rparr>),
      [geocode_cacheKey ''Nowhereland'' \<mapsto>
         \<lparr>cvalue = JGeo \<lparr>latitude = None, longitude = None,
                          formatted_address = ''Nowhereland'',
                          geocoding_provider = None, confidence = ''unknown''\<rparr>,
          expires_at = 3602000\<rparr>],
      [])"
  using negative_result_cached [of scenario_nowhere Map.empty "''Nowhereland''" None Map.empty
      scenario_fallback]
  by (simp add: lookup_def cache_get_absent store_eq Let_def scenario_nowhere_attempts)
     (simp add: scenario_nowhere_def scenario_fallback_def always_up_def)

section \<open>The extraction step and the handler\<close>

lemma trim_NONE: "trim '' NONE '' = ''NONE''"
  by (simp add: trim_def trimStart_def trimEnd_def strip.simps leading_def white_space_def)

lemma trim_blank: "trim ''  '' = ''''"
  by (simp add: trim_def trimStart_def trimEnd_def strip.simps leading_def white_space_def)

lemma askGemini_threw:
  assumes "generateContent env (prompt description) = Threw"
  shows "askGemini env tbl key description = (JStr ''NONE'', tbl, [Gemini])"
  using assms by (simp add: askGemini_def)

lemma askGemini_value_sent:
  "fst (askGemini env tbl key description) = fst (askGemini env tbl' key description) \<and>
   snd (snd (askGemini env tbl key description)) = [Gemini]"
  by (simp add: askGemini_def Let_def split: fetched.splits)

lemma extractLocation_step_miss:
  assumes "lookup (extract_io env) tbl (extract_cacheKey description) = (c, tbl1)"
    and "\<not> hit c"
  shows "extractLocation_step env tbl description =
           askGemini env tbl1 (extract_cacheKey description) description"
  using assms by (cases c) (simp_all add: extractLocation_step_def)

lemma lookup_absent: "lookup io (tbl(key := None)) key = (None, tbl(key := None))"
  by (simp add: lookup_def cache_get_absent)

lemma resolve_value_sent:
  "fst (resolve env tbl key name) = fst (resolve env tbl' key name) \<and>
   snd (snd (resolve env tbl key name)) = snd (snd (resolve env tbl' key name)) \<and>
   snd (snd (resolve env tbl key name)) \<noteq> []"
proof (cases env name rule: resolve_cases)
  case (google r)
  then show ?thesis by (simp add: resolve_google)
next
  case (mapbox r)
  then show ?thesis by (simp add: resolve_mapbox)
next
  case (osm r)
  then show ?thesis by (simp add: resolve_osm)
next
  case none
  then show ?thesis by (simp add: resolve_none)
qed

lemma extraction_failure_writes_nothing:
  assumes "lookup (extract_io env) tbl (extract_cacheKey description) = (c, tbl1)"
    and "\<not> hit c"
    and "generateContent env (prompt description) = Threw"
  shows "extractLocation_step env tbl description = (JStr ''NONE'', tbl1, [Gemini])"
  using extractLocation_step_miss [OF assms(1,2)] askGemini_threw [OF assms(3)] by simp

text \<open>
  C5, at a failing input: the language model throws on the description
  \<^verbatim>\<open>send help now\<close> and the cache is empty. The step returns \<^verbatim>\<open>NONE\<close> and asks
  Gemini, but the table is still empty afterwards, because \<^verbatim>\<open>cache.set\<close> stands
  inside the \<^verbatim>\<open>try\<close> after the failing call; the same call made again on the
  table it left asks Gemini again.
\<close>

theorem extraction_failure_not_cached:
  "extractLocation_step scenario_gemini_down Map.empty ''send help now'' =
     (JStr ''NONE'', Map.empty, [Gemini]) \<and>
   extractLocation_step scenario_gemini_down
     (fst (snd (extractLocation_step scenario_gemini_down Map.empty ''send help now'')))
     ''send help now'' =
     (JStr ''NONE'', Map.empty, [Gemini])"
proof -
  have "lookup (extract_io scenario_gemini_down) Map.empty (extract_cacheKey ''send help now'') =
      (None, Map.empty)"
    by (simp add: lookup_def cache_get_absent)
  then have "extractLocation_step scenario_gemini_down Map.empty ''send help now'' =
      (JStr ''NONE'', Map.empty, [Gemini])"
    by (rule extraction_failure_writes_nothing) (simp_all add: scenario_gemini_down_def)
  then show ?thesis by simp
qed

text \<open>
  C9: when the handler extracts, it calls \<^verbatim>\<open>geocodeLocation\<close> on the description
  itself if the extraction step gave \<^verbatim>\<open>NONE\<close>, and on the extracted value
  otherwise; that value is also the \<^verbatim>\<open>location_name\<close> of the response.
\<close>

theorem extraction_fallback_to_identity:
  assumes "extractLocation_step env tbl description = (extracted, tbl1, sent1)"
    and "geocodeLocation (resolver env) tbl1
           (if extracted = JStr ''NONE'' then JStr description else extracted) =
         (geocoded, tbl2, sent2)"
  shows "post_geocoding env tbl description True =
     (case geocoded of
        Inl e \<Rightarrow> Inl e
      | Inr g \<Rightarrow>
          Inr \<lparr>original_description = description,
               extracted_location =
                 Some (if extracted = JStr ''NONE'' then JStr description else extracted),
               location_name = (if extracted = JStr ''NONE'' then JStr description else extracted),
               geocodeResult = g\<rparr>,
      tbl2, sent1 @ sent2)"
  using assms by (cases geocoded) (auto simp: post_geocoding_def)

lemma scenario_send_help_extract:
  "extractLocation_step scenario_send_help Map.empty ''send help now'' =
     (JStr ''NONE'',
      [extract_cacheKey ''send help now'' \<mapsto> \<lparr>cvalue = JStr ''NONE'', expires_at = 3602000\<rparr>],
      [Gemini])"
  by (simp add: extractLocation_step_def lookup_def cache_get_absent askGemini_def store_eq
        trim_NONE scenario_send_help_def always_up_def Let_def)

lemma scenario_send_help_geocode:
  "geocodeLocation (resolver scenario_send_help)
     [extract_cacheKey ''send help now'' \<mapsto> \<lparr>cvalue = JStr ''NONE'', expires_at = 3602000\<rparr>]
     (JStr ''send help now'') =
   (Inr (JGeo (unresolved ''send help now'')),
    [extract_cacheKey ''send help now'' \<mapsto> \<lparr>cvalue = JStr ''NONE'', expires_at = 3602000\<rparr>,
     geocode_cacheKey ''send help now'' \<mapsto>
       \<lparr>cvalue = JGeo (unresolved ''send help now''), expires_at = 3602000\<rparr>],
    [Mapbox, OpenStreetMap])"
proof -
  let ?tbl = "[extract_cacheKey ''send help now'' \<mapsto>
                 \<lparr>cvalue = JStr ''NONE'', expires_at = 3602000\<rparr>]"
  have "lookup (cache_io scenario_nowhere) ?tbl (geocode_cacheKey ''send help now'') =
      (None, ?tbl)"
    by (simp add: lookup_def cache_get_absent cacheKey_disjoint)
  then have "geocodeLocation scenario_nowhere ?tbl (JStr ''send help now'') =
      (Inr (fst (resolve scenario_nowhere ?tbl (geocode_cacheKey ''send help now'')
                   ''send help now'')),
       snd (resolve scenario_nowhere ?tbl (geocode_cacheKey ''send help now'')
              ''send help now''))"
    by (rule geocodeLocation_miss) simp
  moreover have "resolve scenario_nowhere ?tbl (geocode_cacheKey ''send help now'')
      ''send help now'' =
      (JGeo (unresolved ''send help now''),
       store (cache_io scenario_nowhere) ?tbl (geocode_cacheKey ''send help now'')
         (JGeo (unresolved ''send help now'')) 60,
       invoked GoogleMaps (google_attempt scenario_nowhere ''send help now'') @
       invoked Mapbox (mapbox_attempt scenario_nowhere ''send help now'') @ [OpenStreetMap])"
    by (rule resolve_none) (simp_all add: scenario_nowhere_attempts)
  ultimately show ?thesis
    by (simp add: scenario_send_help_def store_eq scenario_nowhere_attempts)
       (simp add: scenario_nowhere_def always_up_def)
qed

theorem extraction_fallback_to_identity_witness:
  "post_geocoding scenario_send_help Map.empty ''send help now'' True =
     (Inr \<lparr>original_description = ''send help now'',
           extracted_location = Some (JStr ''send help now''),
           location_name = JStr ''send help now'',
           geocodeResult = JGeo (unresolved ''send help now'')\<rparr>,
      [extract_cacheKey ''send help now'' \<mapsto> \<lparr>cvalue = JStr ''NONE'', expires_at = 3602000\<rparr>,
       geocode_cacheKey ''send help now'' \<mapsto>
         \<lparr>cvalue = JGeo (unresolved ''send help now''), expires_at = 3602000\<rparr>],
      [Gemini, Mapbox, OpenStreetMap])"
  using extraction_fallback_to_identity [OF scenario_send_help_extract,
      of "Inr (JGeo (unresolved ''send help now''))"
         "[extract_cacheKey ''send help now'' \<mapsto>
             \<lparr>cvalue = JStr ''NONE'', expires_at = 3602000\<rparr>,
           geocode_cacheKey ''send help now'' \<mapsto>
             \<lparr>cvalue = JGeo (unresolved ''send help now''), expires_at = 3602000\<rparr>]"
         "[Mapbox, OpenStreetMap]"]
    scenario_send_help_geocode
  by simp

text \<open>
  C10: when the lookup returns a falsy value from an entry that has not expired, both
  call sites go on as after a miss: the extraction step asks Gemini, the resolver asks
  its adapters, and the value returned and the adapters tried are those of the same
  call on the table without the entry.
\<close>

theorem falsy_cached_value_is_a_miss:
  "(lookup (extract_io env) tbl (extract_cacheKey description) = (Some v, tbl1) \<and> \<not> truthy v \<longrightarrow>
      fst (extractLocation_step env tbl description) =
        fst (extractLocation_step env (tbl(extract_cacheKey description := None)) description) \<and>
      snd (snd (extractLocation_step env tbl description)) = [Gemini]) \<and>
   (lookup (cache_io renv) tbl' (geocode_cacheKey name) = (Some v', tbl1') \<and> \<not> truthy v' \<longrightarrow>
      fst (geocodeLocation renv tbl' (JStr name)) =
        fst (geocodeLocation renv (tbl'(geocode_cacheKey name := None)) (JStr name)) \<and>
      snd (snd (geocodeLocation renv tbl' (JStr name))) =
        snd (snd (geocodeLocation renv (tbl'(geocode_cacheKey name := None)) (JStr name))) \<and>
      snd (snd (geocodeLocation renv tbl' (JStr name))) \<noteq> [])"
proof (intro conjI impI; elim conjE)
  let ?k = "extract_cacheKey description"
  assume l: "lookup (extract_io env) tbl ?k = (Some v, tbl1)" and f: "\<not> truthy v"
  from f have h: "\<not> hit (Some v)" by simp
  have a: "extractLocation_step env tbl description = askGemini env tbl1 ?k description"
    by (rule extractLocation_step_miss [OF l h])
  have b: "extractLocation_step env (tbl(?k := None)) description =
      askGemini env (tbl(?k := None)) ?k description"
    by (rule extractLocation_step_miss [OF lookup_absent]) simp
  show "fst (extractLocation_step env tbl description) =
      fst (extractLocation_step env (tbl(?k := None)) description)"
    unfolding a b using askGemini_value_sent by blast
  show "snd (snd (extractLocation_step env tbl description)) = [Gemini]"
    unfolding a using askGemini_value_sent by blast
next
  let ?k = "geocode_cacheKey name"
  assume l: "lookup (cache_io renv) tbl' ?k = (Some v', tbl1')" and f: "\<not> truthy v'"
  from f have h: "\<not> hit (Some v')" by simp
  have a: "geocodeLocation renv tbl' (JStr name) =
      (Inr (fst (resolve renv tbl1' ?k name)), snd (resolve renv tbl1' ?k name))"
    by (rule geocodeLocation_miss [OF l h])
  have b: "geocodeLocation renv (tbl'(?k := None)) (JStr name) =
      (Inr (fst (resolve renv (tbl'(?k := None)) ?k name)),
       snd (resolve renv (tbl'(?k := None)) ?k name))"
    by (rule geocodeLocation_miss [OF lookup_absent]) simp
  note r = resolve_value_sent [of renv tbl1' ?k name "tbl'(?k := None)"]
  show "fst (geocodeLocation renv tbl' (JStr name)) =
      fst (geocodeLocation renv (tbl'(?k := None)) (JStr name))"
    unfolding a b using r by simp
  show "snd (snd (geocodeLocation renv tbl' (JStr name))) =
      snd (snd (geocodeLocation renv (tbl'(?k := None)) (JStr name)))"
    unfolding a b using r by simp
  from r have "snd (snd (resolve renv tbl1' ?k name)) \<noteq> []" by blast
  then show "snd (snd (geocodeLocation renv tbl' (JStr name))) \<noteq> []"
    unfolding a by simp
qed

lemma scenario_blank_extract:
  "extractLocation_step scenario_blank Map.empty ''help'' =
     (JStr '''',
      [extract_cacheKey ''help'' \<mapsto> \<lparr>cvalue = JStr '''', expires_at = 3602000\<rparr>],
      [Gemini])"
  by (simp add: extractLocation_step_def lookup_def cache_get_absent askGemini_def store_eq
        trim_blank scenario_blank_def always_up_def Let_def)

theorem falsy_cached_value_is_a_miss_witness:
  "fst (snd (extractLocation_step scenario_blank Map.empty ''help'')) =
     [extract_cacheKey ''help'' \<mapsto> \<lparr>cvalue = JStr '''', expires_at = 3602000\<rparr>] \<and>
   lookup (extract_io scenario_blank)
     [extract_cacheKey ''help'' \<mapsto> \<lparr>cvalue = JStr '''', expires_at = 3602000\<rparr>]
     (extract_cacheKey ''help'') =
     (Some (JStr ''''),
      [extract_cacheKey ''help'' \<mapsto> \<lparr>cvalue = JStr '''', expires_at = 3602000\<rparr>]) \<and>
   snd (snd (extractLocation_step scenario_blank
     [extract_cacheKey ''help'' \<mapsto> \<lparr>cvalue = JStr '''', expires_at = 3602000\<rparr>]
     ''help'')) = [Gemini] \<and>
   lookup (cache_io scenario_fallback)
     [geocode_cacheKey ''Manhattan'' \<mapsto> \<lparr>cvalue = JBool False, expires_at = 5000\<rparr>]
     (geocode_cacheKey ''Manhattan'') =
     (Some (JBool False),
      [geocode_cacheKey ''Manhattan'' \<mapsto> \<lparr>cvalue = JBool False, expires_at = 5000\<rparr>]) \<and>
   snd (snd (geocodeLocation scenario_fallback
     [geocode_cacheKey ''Manhattan'' \<mapsto> \<lparr>cvalue = JBool False, expires_at = 5000\<rparr>]
     (JStr ''Manhattan''))) \<noteq> []"
proof -
  let ?t = "[extract_cacheKey ''help'' \<mapsto> \<lparr>cvalue = JStr '''', expires_at = 3602000\<rparr>]"
  let ?u = "[geocode_cacheKey ''Manhattan'' \<mapsto> \<lparr>cvalue = JBool False, expires_at = 5000\<rparr>]"
  have l1: "lookup (extract_io scenario_blank) ?t (extract_cacheKey ''help'') =
      (Some (JStr ''''), ?t)"
    by (simp add: lookup_def cache_get_present scenario_blank_def always_up_def)
  have l2: "lookup (cache_io scenario_fallback) ?u (geocode_cacheKey ''Manhattan'') =
      (Some (JBool False), ?u)"
    by (simp add: lookup_def cache_get_present scenario_fallback_def always_up_def)
  from falsy_cached_value_is_a_miss [of scenario_blank ?t "''help''" "JStr ''''" ?t
      scenario_fallback ?u "''Manhattan''" "JBool False" ?u] l1 l2
  show ?thesis by (auto simp: scenario_blank_extract)
qed

end
